theory Spec2Isabelle
  imports Main
begin

section \<open>JavaScript values used by the synchronisation engine\<close>

text \<open>
  Strings are \<^typ>\<open>string\<close>; the addresses, event names and provider labels handled here
  are ASCII. Block numbers and counters are JavaScript numbers holding integers and are
  modelled as \<^typ>\<open>int\<close>. An optional property (\<^verbatim>\<open>x?: T\<close>) is an \<^typ>\<open>'a option\<close>.
\<close>

definition lowerChar :: "char \<Rightarrow> char" where
  "lowerChar c =
     (case map_of (zip ''ABCDEFGHIJKLMNOPQRSTUVWXYZ'' ''abcdefghijklmnopqrstuvwxyz'') c of
        Some l \<Rightarrow> l
      | None \<Rightarrow> c)"

text \<open>\<^verbatim>\<open>String.prototype.toLowerCase\<close> on ASCII text.\<close>

definition toLowerCase :: "string \<Rightarrow> string" where
  "toLowerCase s = map lowerChar s"

text \<open>\<^verbatim>\<open>String.prototype.includes\<close>: does \<open>sub\<close> occur in \<open>s\<close> as a contiguous run?\<close>

fun str_includes :: "string \<Rightarrow> string \<Rightarrow> bool" where
  "str_includes [] sub = (sub = [])"
| "str_includes (c # cs) sub = (take (length sub) (c # cs) = sub \<or> str_includes cs sub)"

text \<open>\<^verbatim>\<open>String.prototype.split(sep)\<close> for a one-character separator; the result is never empty.\<close>

fun str_split :: "char \<Rightarrow> string \<Rightarrow> string list" where
  "str_split sep [] = [[]]"
| "str_split sep (c # cs) =
     (if c = sep then [] # str_split sep cs
      else (c # hd (str_split sep cs)) # tl (str_split sep cs))"

text \<open>
  \<^verbatim>\<open>xs[i]\<close> on a JavaScript array: \<^verbatim>\<open>undefined\<close> outside \<open>0 .. length - 1\<close>,
  in particular at every negative index.
\<close>

definition js_index :: "'a list \<Rightarrow> int \<Rightarrow> 'a option" where
  "js_index xs i = (if 0 \<le> i \<and> i < int (length xs) then Some (xs ! nat i) else None)"

text \<open>
  A JavaScript \<^verbatim>\<open>Set\<close> keeps its members in insertion order; \<^verbatim>\<open>add\<close> of a member
  already present changes nothing. It is modelled as the list \<^verbatim>\<open>Array.from\<close> returns.
\<close>

definition set_add :: "'a list \<Rightarrow> 'a \<Rightarrow> 'a list" where
  "set_add s x = (if x \<in> set s then s else s @ [x])"

definition new_Set :: "'a list \<Rightarrow> 'a list" where
  "new_Set xs = foldl set_add [] xs"

text \<open>A string is truthy when it is not empty; an absent optional string is falsy.\<close>

definition truthy :: "string option \<Rightarrow> bool" where
  "truthy s = (case s of None \<Rightarrow> False | Some t \<Rightarrow> t \<noteq> [])"


section \<open>Shared types (lib/types.ts)\<close>

datatype VendorType = External | VaultType | NoOracleEscrow | ErrorType

record VendorInfo =
  vendor :: string
  underlying :: "string list"
  vendorType :: VendorType

text \<open>
  \<^verbatim>\<open>assetPairs: Record<string, string[]>\<close> is an association list in insertion order, the
  order \<^verbatim>\<open>Object.entries\<close> enumerates; \<^verbatim>\<open>vendorInfo\<close> likewise.
\<close>

record RouterInfo =
  ri_deploymentBlock :: int
  adapters :: "string list"
  assetPairs :: "(string \<times> string list) list"
  vendorInfo :: "(string \<times> VendorInfo) list"
  configEventsCount :: int
  vaultEventsCount :: int

text \<open>
  Of the optional properties of \<^verbatim>\<open>VaultInfo\<close> only \<^verbatim>\<open>error\<close> is kept; the balance and
  price properties belong to the later balance step.
\<close>

record VaultInfo =
  vi_oracle :: string
  vi_asset :: string
  vendors :: "string list"
  vi_vendorType :: string
  vi_deploymentBlock :: int
  vi_error :: "string option"

record Progress =
  routers :: "string \<rightharpoonup> RouterInfo"
  vaults :: "string \<rightharpoonup> VaultInfo"
  processedRouters :: "string \<rightharpoonup> int"
  processedVaults :: "string \<rightharpoonup> int"
  lastRouterFactoryBlock :: "int option"
  lastVaultFactoryBlock :: "int option"

text \<open>\<^verbatim>\<open>RouterDeployment\<close> and \<^verbatim>\<open>VaultDeployment\<close> have the same shape.\<close>

record Deployment =
  address :: string
  deploymentBlock :: int

record OracleData =
  provider :: "string option"
  providerInfo :: "string option"
  addressLink :: "string option"

record CrossOracleDetail =
  crossAddress :: "string option"
  baseCrossName :: "string option"
  crossQuoteName :: "string option"
  cross_error :: "string option"

record CrossOracleAnalysis =
  details :: "CrossOracleDetail list option"

record LoadedOracleData =
  eulerOracles :: "OracleData list"
  crossAnalysis :: CrossOracleAnalysis
  vaultDeployments :: "Deployment list"


section \<open>Vendor attribution (lib/oracle-vendor-mapping.ts)\<close>

text \<open>The chain of \<^verbatim>\<open>includes\<close> tests of \<^verbatim>\<open>normalizeVendorName\<close>, first match wins.\<close>

definition vendorOfLabel :: "string \<Rightarrow> string" where
  "vendorOfLabel providerLower =
     (if str_includes providerLower ''euler vault'' then ''Euler Vault''
      else if str_includes providerLower ''chainlink'' then ''Chainlink''
      else if str_includes providerLower ''redstone'' \<or> str_includes providerLower ''red stone''
        then ''RedStone''
      else if str_includes providerLower ''pyth'' then ''Pyth''
      else if str_includes providerLower ''pendle'' then ''Pendle''
      else if str_includes providerLower ''chronicle'' then ''Chronicle''
      else if str_includes providerLower ''midas'' then ''Midas''
      else if str_includes providerLower ''resolv'' then ''Resolv''
      else if str_includes providerLower ''idle'' then ''Idle''
      else if str_includes providerLower ''mev capital'' then ''MEV Capital''
      else if str_includes providerLower ''cross'' then ''Cross''
      else if str_includes providerLower ''fixed rate'' then ''Fixed Rate''
      else if str_includes providerLower ''rate provider'' then ''Rate Provider''
      else if str_includes providerLower ''lido fundamental'' then ''Lido Fundamental''
      else ''Other'')"

definition normalizeVendorName :: "string option \<Rightarrow> string" where
  "normalizeVendorName label =
     (case label of
        None \<Rightarrow> ''no oracle (escrow)''
      | Some s \<Rightarrow> if s = [] then ''no oracle (escrow)'' else vendorOfLabel (toLowerCase s))"

definition isHexDigit :: "char \<Rightarrow> bool" where
  "isHexDigit c = (c \<in> set ''abcdefABCDEF0123456789'')"

text \<open>Does \<^verbatim>\<open>/0x[a-fA-F0-9]{40}/\<close> match at the very start of the string?\<close>

definition addressAtStart :: "string \<Rightarrow> bool" where
  "addressAtStart s =
     (take 2 s = ''0x'' \<and> length (take 40 (drop 2 s)) = 40 \<and>
      list_all isHexDigit (take 40 (drop 2 s)))"

text \<open>
  \<^verbatim>\<open>s.match(/0x[a-fA-F0-9]{40}/)?.[0]\<close>: the leftmost match, 42 characters long, or
  \<^verbatim>\<open>undefined\<close>.
\<close>

fun matchAddress :: "string \<Rightarrow> string option" where
  "matchAddress [] = None"
| "matchAddress (c # cs) =
     (if addressAtStart (c # cs) then Some (take 42 (c # cs)) else matchAddress cs)"

definition zeroAddress :: string where
  "zeroAddress = ''0x0000000000000000000000000000000000000000''"

text \<open>\<^verbatim>\<open>el.addressLink?.match(...)?.[0]\<close> of a registry entry.\<close>

definition fullAddressOf :: "OracleData \<Rightarrow> string option" where
  "fullAddressOf el = (case addressLink el of None \<Rightarrow> None | Some l \<Rightarrow> matchAddress l)"

text \<open>The callback given to \<^verbatim>\<open>eulerOracles.find\<close>.\<close>

definition oracleMatches :: "string \<Rightarrow> OracleData \<Rightarrow> bool" where
  "oracleMatches adapterAddress el =
     (case fullAddressOf el of
        None \<Rightarrow> False
      | Some fullAddress \<Rightarrow>
          if fullAddress = zeroAddress then False
          else toLowerCase fullAddress = toLowerCase adapterAddress)"

text \<open>The callback given to \<^verbatim>\<open>crossAnalysis.details?.find\<close>.\<close>

definition crossMatches :: "string \<Rightarrow> CrossOracleDetail \<Rightarrow> bool" where
  "crossMatches adapterAddress c =
     (case crossAddress c of
        None \<Rightarrow> False
      | Some a \<Rightarrow> toLowerCase a = toLowerCase adapterAddress)"

definition findCrossOracle :: "string \<Rightarrow> CrossOracleAnalysis \<Rightarrow> CrossOracleDetail option" where
  "findCrossOracle adapterAddress ca =
     (case details ca of None \<Rightarrow> None | Some ds \<Rightarrow> find (crossMatches adapterAddress) ds)"

definition getVendorForOracle :: "string \<Rightarrow> LoadedOracleData \<Rightarrow> VendorInfo" where
  "getVendorForOracle adapterAddress oracleData =
     (case find (\<lambda>vault. toLowerCase (address vault) = toLowerCase adapterAddress)
             (vaultDeployments oracleData) of
        Some matchingVault \<Rightarrow>
          \<lparr>vendor = ''Euler Vault'', underlying = [], vendorType = VaultType\<rparr>
      | None \<Rightarrow>
         (case find (oracleMatches adapterAddress) (eulerOracles oracleData) of
            None \<Rightarrow> \<lparr>vendor = ''oracle not known'', underlying = [], vendorType = ErrorType\<rparr>
          | Some oracle \<Rightarrow>
             (case fullAddressOf oracle of
                None \<Rightarrow>
                  \<lparr>vendor = ''no oracle address stored'', underlying = [],
                   vendorType = ErrorType\<rparr>
              | Some fullAddress \<Rightarrow>
                  if fullAddress = zeroAddress then
                    \<lparr>vendor = ''no oracle (escrow)'', underlying = [],
                     vendorType = NoOracleEscrow\<rparr>
                  else
                    (let vendorName = normalizeVendorName (providerInfo oracle);
                         plain = \<lparr>vendor = vendorName, underlying = [], vendorType = External\<rparr>
                     in if vendorName = ''Cross'' then
                          (case findCrossOracle adapterAddress (crossAnalysis oracleData) of
                             Some crossOracle \<Rightarrow>
                               if \<not> truthy (cross_error crossOracle) then
                                 \<lparr>vendor = ''Cross'',
                                  underlying =
                                    [normalizeVendorName (baseCrossName crossOracle),
                                     normalizeVendorName (crossQuoteName crossOracle)],
                                  vendorType = External\<rparr>
                               else plain
                           | None \<Rightarrow> plain)
                        else plain))))"


section \<open>The chain client and the record of network calls\<close>

text \<open>
  Every request to the node is appended to \<open>calls\<close>. The node's answer to a request may
  depend on all requests made before it, so a failure can be transient. \<open>batches\<close> notes,
  for each event query, the batch size in force when it was sent. The pauses between
  requests (\<^verbatim>\<open>sleep\<close>) and the console output are not part of the model; writing the
  progress file (\<^verbatim>\<open>saveProgress\<close>) is taken to succeed, the saved state being the
  progress value itself.
\<close>

datatype call =
    GetBlockNumber
  | QueryFilter string string int int
  | CallOracle string
  | CallAsset string

record world =
  calls :: "call list"
  batches :: "int list"


text \<open>\<^verbatim>\<open>ethers.Log | ethers.EventLog\<close>; only an \<^verbatim>\<open>EventLog\<close> carries decoded arguments.\<close>

datatype 'a log = EventLog int 'a | Log int

fun isEventLog :: "'a log \<Rightarrow> bool" where
  "isEventLog (EventLog blockNumber args) = True"
| "isEventLog (Log blockNumber) = False"

text \<open>Arguments of \<^verbatim>\<open>ConfigSet(asset0, asset1, oracle)\<close>.\<close>

datatype ConfigSetArgs = ConfigSetArgs string string string

text \<open>Arguments of \<^verbatim>\<open>ContractDeployed(router, deployer, timestamp)\<close>.\<close>

datatype ContractDeployedArgs = ContractDeployedArgs string string int

text \<open>
  The node. A request to a contract names the contract first; its answer depends on the
  requests made so far. A rejected request is \<open>Inl\<close> of its message.
\<close>

record chain =
  getBlockNumber :: "call list \<Rightarrow> string + int"
  queryConfigSet :: "string \<Rightarrow> call list \<Rightarrow> int \<Rightarrow> int \<Rightarrow> string + ConfigSetArgs log list"
  queryContractDeployed ::
    "string \<Rightarrow> call list \<Rightarrow> int \<Rightarrow> int \<Rightarrow> string + ContractDeployedArgs log list"
  callOracle :: "string \<Rightarrow> call list \<Rightarrow> string + string"
  callAsset :: "string \<Rightarrow> call list \<Rightarrow> string + string"

text \<open>
  \<open>ConfigurationError\<close> is the \<^verbatim>\<open>process.exit(1)\<close> of \<^verbatim>\<open>requireStartBlock\<close>, with the
  first line it prints; \<open>RpcError\<close> a rejected request; \<open>Error\<close> a \<^verbatim>\<open>throw new Error\<close>.
\<close>

datatype error = ConfigurationError string | RpcError string | Error string

text \<open>
  The settings read from the environment, after \<^verbatim>\<open>parseInt\<close>. A start block that is
  not set, or does not parse to a number, is \<open>None\<close>; the recheck interval is 50000 when
  it is not set.
\<close>

record config =
  ROUTER_FACTORY_START_BLOCK :: "int option"
  EVAULT_FACTORY_START_BLOCK :: "int option"
  RECHECK_INTERVAL_BLOCKS :: int

text \<open>
  The test \<^verbatim>\<open>if (n)\<close> on an optional number: the number when it is present and not zero.
\<close>

definition truthyNum :: "int option \<Rightarrow> int option" where
  "truthyNum n = (case n of None \<Rightarrow> None | Some b \<Rightarrow> if b \<noteq> 0 then Some b else None)"


section \<open>Utilities (lib/utils.ts)\<close>

definition requireStartBlock :: "int option \<Rightarrow> string \<Rightarrow> string \<Rightarrow> error + int" where
  "requireStartBlock blockVar factoryName envVarName =
     (case blockVar of
        None \<Rightarrow> Inl (ConfigurationError (envVarName @ '' is not set in .env file''))
      | Some b \<Rightarrow>
          if b = 0 then Inl (ConfigurationError (envVarName @ '' is not set in .env file''))
          else Inr b)"

text \<open>
  The \<^verbatim>\<open>while\<close> loop of \<^verbatim>\<open>queryEventsInBatches\<close>, with its variables \<open>allEvents\<close> and
  \<open>currentBlock\<close>. \<open>queryFilter\<close> is \<^verbatim>\<open>contract.queryFilter(filter, _, _)\<close>. The result is
  \<open>None\<close> when the loop does not end.
\<close>

partial_function (option) queryEventsInBatches_loop ::
  "(call list \<Rightarrow> int \<Rightarrow> int \<Rightarrow> string + 'a log list) \<Rightarrow> string \<Rightarrow> string \<Rightarrow>
   int \<Rightarrow> int \<Rightarrow> 'a log list \<Rightarrow> int \<Rightarrow> world \<Rightarrow> ('a log list \<times> world) option" where
  "queryEventsInBatches_loop queryFilter contract eventName toBlock batchSize allEvents
       currentBlock w =
    (if currentBlock \<le> toBlock then
       (let endBlock = min (currentBlock + batchSize - 1) toBlock;
            w1 = w\<lparr>calls := calls w @ [QueryFilter contract eventName currentBlock endBlock],
                   batches := batches w @ [batchSize]\<rparr>
        in case queryFilter (calls w) currentBlock endBlock of
             Inr events \<Rightarrow>
               queryEventsInBatches_loop queryFilter contract eventName toBlock batchSize
                 (allEvents @ filter isEventLog events) (endBlock + 1) w1
           | Inl errorMsg \<Rightarrow>
               if batchSize > 1000 then
                 Option.bind
                   (queryEventsInBatches_loop queryFilter contract eventName endBlock
                      (batchSize div 2) [] currentBlock w1)
                   (\<lambda>(smallerBatch, w2).
                      queryEventsInBatches_loop queryFilter contract eventName toBlock batchSize
                        (allEvents @ smallerBatch) (endBlock + 1) w2)
               else
                 queryEventsInBatches_loop queryFilter contract eventName toBlock batchSize
                   allEvents (endBlock + 1) w1)
     else Some (allEvents, w))"

definition queryEventsInBatches ::
  "(call list \<Rightarrow> int \<Rightarrow> int \<Rightarrow> string + 'a log list) \<Rightarrow> string \<Rightarrow> string \<Rightarrow>
   int \<Rightarrow> int \<Rightarrow> int \<Rightarrow> world \<Rightarrow> ('a log list \<times> world) option" where
  "queryEventsInBatches queryFilter contract eventName fromBlock toBlock batchSize w =
     queryEventsInBatches_loop queryFilter contract eventName toBlock batchSize [] fromBlock w"

text \<open>The default value of the parameter \<^verbatim>\<open>batchSize\<close>.\<close>

definition defaultBatchSize :: int where
  "defaultBatchSize = 10000"


section \<open>Step 1: routers (steps/1-fetch-routers.ts)\<close>

definition ROUTER_FACTORY :: string where
  "ROUTER_FACTORY = ''0x70B3f6F61b7Bf237DF04589DdAA842121072326A''"

text \<open>The event names of the two ABIs.\<close>

definition ROUTER_FACTORY_ABI :: "string list" where
  "ROUTER_FACTORY_ABI = [''ContractDeployed'']"

definition ROUTER_ABI :: "string list" where
  "ROUTER_ABI = [''ConfigSet'', ''ResolvedVaultSet'']"

text \<open>\<^verbatim>\<open>contract.filters.Name?.()\<close>: defined when the ABI declares the event.\<close>

definition filters :: "string list \<Rightarrow> string \<Rightarrow> string option" where
  "filters abi eventName = (if eventName \<in> set abi then Some eventName else None)"

text \<open>
  The \<^verbatim>\<open>filter\<close> and \<^verbatim>\<open>map\<close> of \<^verbatim>\<open>queryRouterFactory\<close> on one event: kept when it has a
  non-empty \<^verbatim>\<open>args.router\<close>.
\<close>

fun routerDeploymentOf :: "ContractDeployedArgs log \<Rightarrow> Deployment option" where
  "routerDeploymentOf (EventLog blockNumber (ContractDeployedArgs router deployer timestamp)) =
     (if router \<noteq> [] then Some \<lparr>address = router, deploymentBlock = blockNumber\<rparr> else None)"
| "routerDeploymentOf (Log blockNumber) = None"

definition queryRouterFactory ::
  "chain \<Rightarrow> int \<Rightarrow> int \<Rightarrow> world \<Rightarrow> ((error + Deployment list) \<times> world) option" where
  "queryRouterFactory node fromBlock currentBlock w =
     (case filters ROUTER_FACTORY_ABI ''ContractDeployed'' of
        None \<Rightarrow> Some (Inl (Error ''ContractDeployed filter not found''), w)
      | Some deploymentFilter \<Rightarrow>
          Option.bind
            (queryEventsInBatches (queryContractDeployed node ROUTER_FACTORY)
               ROUTER_FACTORY deploymentFilter fromBlock currentBlock defaultBatchSize w)
            (\<lambda>(newDeploymentEvents, w').
               Some (Inr (List.map_filter routerDeploymentOf newDeploymentEvents), w')))"

record FactoryQuery =
  fromBlock :: int
  shouldQueryFactory :: bool

definition evaluateRouterFactoryQuery ::
  "config \<Rightarrow> Deployment list \<Rightarrow> Progress \<Rightarrow> error + FactoryQuery" where
  "evaluateRouterFactoryQuery cfg allRouterDeployments progress =
     (case truthyNum (lastRouterFactoryBlock progress) of
        Some lastBlock \<Rightarrow>
          (let fromBlock0 = lastBlock + 1;
               alternativeStart =
                 (case js_index allRouterDeployments (- 1) of
                    Some d \<Rightarrow> deploymentBlock d
                  | None \<Rightarrow> fromBlock0)
           in Inr \<lparr>fromBlock = (if alternativeStart > fromBlock0 then fromBlock0
                                  else alternativeStart),
                   shouldQueryFactory = True\<rparr>)
      | None \<Rightarrow>
          if length allRouterDeployments > 0 then
            Inr \<lparr>fromBlock = (case js_index allRouterDeployments (- 1) of
                                 Some d \<Rightarrow> deploymentBlock d
                               | None \<Rightarrow> 0),
                 shouldQueryFactory = False\<rparr>
          else
            (case requireStartBlock (ROUTER_FACTORY_START_BLOCK cfg) ROUTER_FACTORY
                    ''ROUTER_FACTORY_START_BLOCK'' of
               Inl e \<Rightarrow> Inl e
             | Inr b \<Rightarrow> Inr \<lparr>fromBlock = b, shouldQueryFactory = True\<rparr>))"

text \<open>
  The body of \<^verbatim>\<open>configEvents.forEach\<close>: add the oracle to the adapter set and push it
  onto the list stored under the key \<^verbatim>\<open>asset0-asset1\<close>, created empty when missing.
\<close>

fun pushPair :: "(string \<times> string list) list \<Rightarrow> string \<Rightarrow> string \<Rightarrow> (string \<times> string list) list" where
  "pushPair [] key v = [(key, [v])]"
| "pushPair ((k, vs) # ps) key v =
     (if k = key then (k, vs @ [v]) # ps else (k, vs) # pushPair ps key v)"

fun addConfigEvent ::
  "string list \<times> (string \<times> string list) list \<Rightarrow> ConfigSetArgs log \<Rightarrow>
   string list \<times> (string \<times> string list) list" where
  "addConfigEvent (adapterSet, pairs) (EventLog blockNumber (ConfigSetArgs asset0 asset1 oracle)) =
     (set_add adapterSet oracle, pushPair pairs (asset0 @ ''-'' @ asset1) oracle)"
| "addConfigEvent (adapterSet, pairs) (Log blockNumber) = (adapterSet, pairs)"

text \<open>How the loop body of \<^verbatim>\<open>processRouterDeployments\<close> ended for one deployment.\<close>

datatype outcome = Skipped | Processed | Raised error

text \<open>
  The record written for a router from the events just fetched. \<open>existingRouterInfo\<close>
  stands for \<^verbatim>\<open>isRecheck && existingRouterInfo\<close>: the cached record on a recheck,
  nothing otherwise.
\<close>

definition mergeRouterInfo ::
  "LoadedOracleData \<Rightarrow> Deployment \<Rightarrow> RouterInfo option \<Rightarrow> ConfigSetArgs log list \<Rightarrow>
   RouterInfo" where
  "mergeRouterInfo oracleData deployment existingRouterInfo configEvents =
     (let adapters0 = (case existingRouterInfo of
                         Some existing \<Rightarrow> new_Set (adapters existing)
                       | None \<Rightarrow> []);
          assetPairs0 = (case existingRouterInfo of
                           Some existing \<Rightarrow> assetPairs existing
                         | None \<Rightarrow> []);
          merged = foldl addConfigEvent (adapters0, assetPairs0) configEvents;
          totalConfigEvents =
            (case existingRouterInfo of
               Some existing \<Rightarrow> configEventsCount existing + int (length configEvents)
             | None \<Rightarrow> int (length configEvents))
      in \<lparr>ri_deploymentBlock = deploymentBlock deployment,
          adapters = fst merged,
          assetPairs = snd merged,
          vendorInfo =
            map (\<lambda>adapter. (adapter, getVendorForOracle adapter oracleData)) (fst merged),
          configEventsCount = totalConfigEvents,
          vaultEventsCount = 0\<rparr>)"

text \<open>
  The part of the loop body inside \<^verbatim>\<open>try\<close>, given the block to query from and whether this
  is a recheck.
\<close>

definition analyzeRouter ::
  "chain \<Rightarrow> LoadedOracleData \<Rightarrow> int \<Rightarrow> Deployment \<Rightarrow> int \<Rightarrow> bool \<Rightarrow> Progress \<Rightarrow> world \<Rightarrow>
   (outcome \<times> Progress \<times> world) option" where
  "analyzeRouter node oracleData currentBlock deployment queryFromBlock isRecheck progress w =
     (let routerAddress = address deployment in
      case filters ROUTER_ABI ''ConfigSet'' of
        None \<Rightarrow> Some (Raised (Error ''ConfigSet filter not found''), progress, w)
      | Some configFilter \<Rightarrow>
          Option.bind
            (queryEventsInBatches (queryConfigSet node routerAddress)
               routerAddress configFilter queryFromBlock currentBlock defaultBatchSize w)
            (\<lambda>(configEvents, w').
               let existingRouterInfo =
                     (if isRecheck then routers progress routerAddress else None);
                   info = mergeRouterInfo oracleData deployment existingRouterInfo configEvents
               in Some (Processed,
                        progress\<lparr>routers := (routers progress)(routerAddress \<mapsto> info),
                                 processedRouters :=
                                   (processedRouters progress)(routerAddress \<mapsto> currentBlock)\<rparr>,
                        w')))"

text \<open>One pass of the \<^verbatim>\<open>for\<close> loop of \<^verbatim>\<open>processRouterDeployments\<close>.\<close>

definition processRouter ::
  "chain \<Rightarrow> LoadedOracleData \<Rightarrow> config \<Rightarrow> int \<Rightarrow> Deployment \<Rightarrow> Progress \<Rightarrow> world \<Rightarrow>
   (outcome \<times> Progress \<times> world) option" where
  "processRouter node oracleData cfg currentBlock deployment progress w =
     (case processedRouters progress (address deployment) of
        Some lastProcessedBlock \<Rightarrow>
          if currentBlock - lastProcessedBlock < RECHECK_INTERVAL_BLOCKS cfg
          then Some (Skipped, progress, w)
          else analyzeRouter node oracleData currentBlock deployment
                 (lastProcessedBlock + 1) True progress w
      | None \<Rightarrow>
          analyzeRouter node oracleData currentBlock deployment
            (deploymentBlock deployment) False progress w)"

text \<open>
  The \<^verbatim>\<open>for\<close> loop: whatever the outcome of one deployment, also a caught error, the loop
  goes on with the next one.
\<close>

fun processRouters ::
  "chain \<Rightarrow> LoadedOracleData \<Rightarrow> config \<Rightarrow> int \<Rightarrow> Deployment list \<Rightarrow> Progress \<Rightarrow> world \<Rightarrow>
   (Progress \<times> world) option" where
  "processRouters node oracleData cfg currentBlock [] progress w = Some (progress, w)"
| "processRouters node oracleData cfg currentBlock (deployment # rest) progress w =
     Option.bind (processRouter node oracleData cfg currentBlock deployment progress w)
       (\<lambda>(out, progress', w'). processRouters node oracleData cfg currentBlock rest progress' w')"

definition processRouterDeployments ::
  "chain \<Rightarrow> LoadedOracleData \<Rightarrow> config \<Rightarrow> Deployment list \<Rightarrow> int \<Rightarrow> Progress \<Rightarrow> world \<Rightarrow>
   (Progress \<times> world) option" where
  "processRouterDeployments node oracleData cfg allRouterDeployments currentBlock progress w =
     Option.bind (processRouters node oracleData cfg currentBlock allRouterDeployments progress w)
       (\<lambda>(progress', w'). Some (progress'\<lparr>lastRouterFactoryBlock := Some currentBlock\<rparr>, w'))"

text \<open>
  The merge of new deployments into the cached list in \<^verbatim>\<open>fetchRouters\<close>: a new deployment
  is appended unless its lower-cased address was in the list at the start.
\<close>

definition mergeDeployments :: "Deployment list \<Rightarrow> Deployment list \<Rightarrow> Deployment list" where
  "mergeDeployments allDeployments newDeployments =
     (let existingAddresses = set (map (\<lambda>d. toLowerCase (address d)) allDeployments)
      in allDeployments @
         filter (\<lambda>newDep. toLowerCase (address newDep) \<notin> existingAddresses) newDeployments)"

text \<open>
  \<^verbatim>\<open>fetchRouters\<close>. \<open>deploymentsFile\<close> is the content of the router deployment cache,
  returned as it stands at the end. An \<open>Inl\<close> result ends the run.
\<close>

definition fetchRouters ::
  "chain \<Rightarrow> LoadedOracleData \<Rightarrow> config \<Rightarrow> Deployment list \<Rightarrow> Progress \<Rightarrow> world \<Rightarrow>
   ((error + Progress) \<times> Deployment list \<times> world) option" where
  "fetchRouters node oracleData cfg deploymentsFile progress w =
     (let w1 = w\<lparr>calls := calls w @ [GetBlockNumber]\<rparr> in
      case getBlockNumber node (calls w) of
        Inl msg \<Rightarrow> Some (Inl (RpcError msg), deploymentsFile, w1)
      | Inr currentBlock \<Rightarrow>
         (case evaluateRouterFactoryQuery cfg deploymentsFile progress of
            Inl e \<Rightarrow> Some (Inl e, deploymentsFile, w1)
          | Inr q \<Rightarrow>
              if shouldQueryFactory q then
                Option.bind (queryRouterFactory node (fromBlock q) currentBlock w1)
                  (\<lambda>(r, w2).
                     case r of
                       Inl e \<Rightarrow> Some (Inl e, deploymentsFile, w2)
                     | Inr newDeployments \<Rightarrow>
                         (let allRouterDeployments =
                                mergeDeployments deploymentsFile newDeployments;
                              file' = (if length newDeployments > 0 then allRouterDeployments
                                       else deploymentsFile)
                          in Option.bind
                               (processRouterDeployments node oracleData cfg allRouterDeployments
                                  currentBlock progress w2)
                               (\<lambda>(progress', w3). Some (Inr progress', file', w3))))
              else
                Option.bind
                  (processRouterDeployments node oracleData cfg deploymentsFile currentBlock
                     progress w1)
                  (\<lambda>(progress', w3). Some (Inr progress', deploymentsFile, w3))))"


section \<open>Step 2: vaults (steps/2-fetch-vaults.ts)\<close>



text \<open>The body of \<^verbatim>\<open>adapters.forEach\<close> in \<^verbatim>\<open>processVaultDeployments\<close>.\<close>

definition addAdapterVendors :: "RouterInfo \<Rightarrow> string list \<Rightarrow> string \<Rightarrow> string list" where
  "addAdapterVendors routerInfo vendorSet adapterAddress =
     (case map_of (vendorInfo routerInfo) adapterAddress of
        None \<Rightarrow> vendorSet
      | Some vInfo \<Rightarrow>
          if vendor vInfo = ''Cross'' \<and> length (underlying vInfo) > 0
          then foldl set_add vendorSet (underlying vInfo)
          else set_add vendorSet (vendor vInfo))"

text \<open>The body of \<^verbatim>\<open>Object.entries(routerInfo.assetPairs).forEach\<close>.\<close>

definition addPairVendors ::
  "RouterInfo \<Rightarrow> string \<Rightarrow> string list \<Rightarrow> string \<times> string list \<Rightarrow> string list" where
  "addPairVendors routerInfo assetAddress vendorSet entry =
     (let parts = str_split CHR ''-'' (fst entry);
          assetLower = toLowerCase assetAddress;
          matchesAsset0 = (case js_index parts 0 of
                             None \<Rightarrow> False | Some a \<Rightarrow> toLowerCase a = assetLower);
          matchesAsset1 = (case js_index parts 1 of
                             None \<Rightarrow> False | Some a \<Rightarrow> toLowerCase a = assetLower)
      in if matchesAsset0 \<or> matchesAsset1
         then foldl (addAdapterVendors routerInfo) vendorSet (snd entry)
         else vendorSet)"

text \<open>The vendors and the vendor type of a vault, from its router and its asset.\<close>

definition vaultVendors ::
  "LoadedOracleData \<Rightarrow> Progress \<Rightarrow> string \<Rightarrow> string \<Rightarrow> string list \<times> string" where
  "vaultVendors oracleData progress routerAddress assetAddress =
     (case routers progress routerAddress of
        Some routerInfo \<Rightarrow>
          (let vendorList = foldl (addPairVendors routerInfo assetAddress) []
                              (assetPairs routerInfo)
           in (vendorList,
               if length vendorList = 1
               then (case js_index vendorList 0 of Some v \<Rightarrow> v | None \<Rightarrow> ''Unknown'')
               else ''Multiple''))
      | None \<Rightarrow>
          (let info = getVendorForOracle routerAddress oracleData
           in if vendor info = ''Cross'' \<and> length (underlying info) > 0
              then (underlying info, ''Cross'')
              else ([vendor info], vendor info)))"

text \<open>The writes that end the \<^verbatim>\<open>try\<close> block: the vault record and its checkpoint.\<close>

definition recordVault ::
  "LoadedOracleData \<Rightarrow> int \<Rightarrow> Deployment \<Rightarrow> string \<Rightarrow> string \<Rightarrow> Progress \<Rightarrow> Progress" where
  "recordVault oracleData currentBlock deployment routerAddress assetAddress progress =
     (let vaultAddress = address deployment;
          (vendorList, vType) = vaultVendors oracleData progress routerAddress assetAddress;
          info = \<lparr>vi_oracle = routerAddress, vi_asset = assetAddress, vendors = vendorList,
                  vi_vendorType = vType, vi_deploymentBlock = deploymentBlock deployment,
                  vi_error = None\<rparr>
      in progress\<lparr>vaults := (vaults progress)(vaultAddress \<mapsto> info),
                  processedVaults := (processedVaults progress)(vaultAddress \<mapsto> currentBlock)\<rparr>)"

text \<open>
  The part of the loop body inside \<^verbatim>\<open>try\<close>. Both requests of \<^verbatim>\<open>Promise.all\<close> are sent
  before either answer is awaited.
\<close>

definition analyzeVault ::
  "chain \<Rightarrow> LoadedOracleData \<Rightarrow> int \<Rightarrow> Deployment \<Rightarrow> bool \<Rightarrow> Progress \<Rightarrow> world \<Rightarrow>
   outcome \<times> Progress \<times> world" where
  "analyzeVault node oracleData currentBlock deployment shouldRequeryRpc progress w =
     (let vaultAddress = address deployment;
          cached =
            (case vaults progress vaultAddress of
               Some existingVaultInfo \<Rightarrow>
                 if \<not> shouldRequeryRpc \<and> vi_oracle existingVaultInfo \<noteq> [] \<and>
                    vi_asset existingVaultInfo \<noteq> []
                 then Some (vi_oracle existingVaultInfo, vi_asset existingVaultInfo)
                 else None
             | None \<Rightarrow> None)
      in case cached of
           Some (routerAddress, assetAddress) \<Rightarrow>
             (Processed,
              recordVault oracleData currentBlock deployment routerAddress assetAddress progress,
              w)
         | None \<Rightarrow>
           (let w1 = w\<lparr>calls := calls w @ [CallOracle vaultAddress]\<rparr>;
                w2 = w1\<lparr>calls := calls w1 @ [CallAsset vaultAddress]\<rparr>
            in case callOracle node vaultAddress (calls w) of
                 Inl msg \<Rightarrow> (Raised (RpcError msg), progress, w2)
               | Inr routerAddress \<Rightarrow>
                  (case callAsset node vaultAddress (calls w1) of
                     Inl msg \<Rightarrow> (Raised (RpcError msg), progress, w2)
                   | Inr assetAddress \<Rightarrow>
                       if routerAddress = [] \<or> assetAddress = [] then
                         (Raised (Error ''Failed to get oracle or asset address''), progress, w2)
                       else
                         (Processed,
                          recordVault oracleData currentBlock deployment routerAddress
                            assetAddress progress,
                          w2))))"

text \<open>One pass of the \<^verbatim>\<open>for\<close> loop of \<^verbatim>\<open>processVaultDeployments\<close>.\<close>

definition processVault ::
  "chain \<Rightarrow> LoadedOracleData \<Rightarrow> config \<Rightarrow> int \<Rightarrow> Deployment \<Rightarrow> Progress \<Rightarrow> world \<Rightarrow>
   outcome \<times> Progress \<times> world" where
  "processVault node oracleData cfg currentBlock deployment progress w =
     (case processedVaults progress (address deployment) of
        Some lastProcessedBlock \<Rightarrow>
          if currentBlock - lastProcessedBlock < RECHECK_INTERVAL_BLOCKS cfg
          then analyzeVault node oracleData currentBlock deployment False progress w
          else analyzeVault node oracleData currentBlock deployment True progress w
      | None \<Rightarrow> analyzeVault node oracleData currentBlock deployment True progress w)"

fun processVaults ::
  "chain \<Rightarrow> LoadedOracleData \<Rightarrow> config \<Rightarrow> int \<Rightarrow> Deployment list \<Rightarrow> Progress \<Rightarrow> world \<Rightarrow>
   Progress \<times> world" where
  "processVaults node oracleData cfg currentBlock [] progress w = (progress, w)"
| "processVaults node oracleData cfg currentBlock (deployment # rest) progress w =
     (case processVault node oracleData cfg currentBlock deployment progress w of
        (out, progress', w') \<Rightarrow> processVaults node oracleData cfg currentBlock rest progress' w')"

definition processVaultDeployments ::
  "chain \<Rightarrow> LoadedOracleData \<Rightarrow> config \<Rightarrow> Deployment list \<Rightarrow> int \<Rightarrow> Progress \<Rightarrow> world \<Rightarrow>
   Progress \<times> world" where
  "processVaultDeployments node oracleData cfg allVaultDeployments currentBlock progress w =
     (case processVaults node oracleData cfg currentBlock allVaultDeployments progress w of
        (progress', w') \<Rightarrow> (progress'\<lparr>lastVaultFactoryBlock := Some currentBlock\<rparr>, w'))"


section \<open>Progress store (lib/progress.ts)\<close>

text \<open>The progress \<^verbatim>\<open>loadProgress\<close> returns when there is no progress file.\<close>

definition freshProgress :: Progress where
  "freshProgress =
     \<lparr>routers = Map.empty, vaults = Map.empty, processedRouters = Map.empty,
      processedVaults = Map.empty, lastRouterFactoryBlock = None,
      lastVaultFactoryBlock = None\<rparr>"


section \<open>Example data\<close>

text \<open>Nothing has been requested yet.\<close>

definition freshWorld :: world where
  "freshWorld = \<lparr>calls = [], batches = []\<rparr>"

text \<open>The settings when the environment sets none of them.\<close>

definition defaultConfig :: config where
  "defaultConfig =
     \<lparr>ROUTER_FACTORY_START_BLOCK = None, EVAULT_FACTORY_START_BLOCK = None,
      RECHECK_INTERVAL_BLOCKS = 50000\<rparr>"

definition noOracleData :: LoadedOracleData where
  "noOracleData =
     \<lparr>eulerOracles = [], crossAnalysis = \<lparr>details = None\<rparr>, vaultDeployments = []\<rparr>"

text \<open>A node that rejects every request.\<close>

definition downNode :: chain where
  "downNode =
     \<lparr>getBlockNumber = (\<lambda>h. Inl ''timeout''),
      queryConfigSet = (\<lambda>c h a b. Inl ''timeout''),
      queryContractDeployed = (\<lambda>c h a b. Inl ''timeout''),
      callOracle = (\<lambda>c h. Inl ''timeout''),
      callAsset = (\<lambda>c h. Inl ''timeout'')\<rparr>"

text \<open>
  A node at height 51001 on which every router logged one \<^verbatim>\<open>ConfigSet\<close> event, in block
  2000, and no router has been deployed.
\<close>

definition exampleNode :: chain where
  "exampleNode =
     \<lparr>getBlockNumber = (\<lambda>h. Inr 51001),
      queryConfigSet =
        (\<lambda>c h a b. Inr (if a \<le> 2000 \<and> 2000 \<le> b
                          then [EventLog 2000 (ConfigSetArgs ''0xA'' ''0xB'' ''0xO2'')]
                          else [])),
      queryContractDeployed = (\<lambda>c h a b. Inr []),
      callOracle = (\<lambda>c h. Inr ''0xR''),
      callAsset = (\<lambda>c h. Inr ''0xA'')\<rparr>"

text \<open>
  A node that rejects an event query over more than 5000 blocks and answers any other like
  \<open>exampleNode\<close>.
\<close>

definition narrowNode :: chain where
  "narrowNode =
     \<lparr>getBlockNumber = (\<lambda>h. Inr 9999),
      queryConfigSet =
        (\<lambda>c h a b. if b - a + 1 > 5000 then Inl ''query returned more than 10000 results''
                   else Inr (if a \<le> 2000 \<and> 2000 \<le> b
                             then [EventLog 2000 (ConfigSetArgs ''0xA'' ''0xB'' ''0xO2'')]
                             else [])),
      queryContractDeployed = (\<lambda>c h a b. Inr []),
      callOracle = (\<lambda>c h. Inr ''0xR''),
      callAsset = (\<lambda>c h. Inr ''0xA'')\<rparr>"

definition exampleRouter :: Deployment where
  "exampleRouter = \<lparr>address = ''0xR'', deploymentBlock = 500\<rparr>"

definition exampleVault :: Deployment where
  "exampleVault = \<lparr>address = ''0xV'', deploymentBlock = 600\<rparr>"

text \<open>A progress file in which the router and the vault were last processed at block 1000.\<close>

definition cachedProgress :: Progress where
  "cachedProgress =
     \<lparr>routers = [''0xR'' \<mapsto>
         \<lparr>ri_deploymentBlock = 500, adapters = [''0xO1''],
          assetPairs = [(''0xA-0xB'', [''0xO1''])],
          vendorInfo =
            [(''0xO1'',
              \<lparr>vendor = ''oracle not known'', underlying = [], vendorType = ErrorType\<rparr>)],
          configEventsCount = 1, vaultEventsCount = 3\<rparr>],
      vaults = [''0xV'' \<mapsto>
         \<lparr>vi_oracle = ''0xR'', vi_asset = ''0xA'', vendors = [''oracle not known''],
          vi_vendorType = ''oracle not known'', vi_deploymentBlock = 600, vi_error = None\<rparr>],
      processedRouters = [''0xR'' \<mapsto> 1000],
      processedVaults = [''0xV'' \<mapsto> 1000],
      lastRouterFactoryBlock = Some 1000,
      lastVaultFactoryBlock = Some 1000\<rparr>"

text \<open>A registry whose only entry links to the zero address.\<close>

definition escrowRegistry :: LoadedOracleData where
  "escrowRegistry =
     \<lparr>eulerOracles =
        [\<lparr>provider = Some ''Escrow'', providerInfo = Some ''Escrow (no oracle)'',
          addressLink = Some ''https://etherscan.io/address/0x0000000000000000000000000000000000000000''\<rparr>],
      crossAnalysis = \<lparr>details = None\<rparr>,
      vaultDeployments = []\<rparr>"






section \<open>The batch event fetcher\<close>

lemma loop_done:
  "toBlock < currentBlock \<Longrightarrow>
   queryEventsInBatches_loop qf c f toBlock bs acc currentBlock w = Some (acc, w)"
  by (subst queryEventsInBatches_loop.simps) simp

text \<open>
  Induction along the calls of the loop when the batch size is positive: the next pass
  starts at a later block, the retry runs with a smaller batch size.
\<close>

lemma loop_induct [consumes 1, case_names step]:
  fixes bs toBlock cur :: int
  assumes bs: "1 \<le> bs"
    and step: "\<And>(toBlock::int) (bs::int) acc (cur::int) w.
      1 \<le> bs \<Longrightarrow>
      (\<And>acc' w'. cur \<le> toBlock \<Longrightarrow>
         P toBlock bs acc' (min (cur + bs - 1) toBlock + 1) w') \<Longrightarrow>
      (\<And>acc' w'. cur \<le> toBlock \<Longrightarrow> 1000 < bs \<Longrightarrow>
         P (min (cur + bs - 1) toBlock) (bs div 2) acc' cur w') \<Longrightarrow>
      P toBlock bs acc cur w"
  shows "P toBlock bs acc cur w"
  using bs
proof (induction "(nat bs, nat (toBlock - cur + 1))" arbitrary: toBlock bs acc cur w
    rule: wf_induct_rule [OF wf_lex_prod [OF wf_less wf_less]])
  case less: 1
  show ?case
  proof (rule step)
    show "1 \<le> bs" by (rule less.prems)
  next
    fix acc' w' assume "cur \<le> toBlock"
    with less.prems show "P toBlock bs acc' (min (cur + bs - 1) toBlock + 1) w'"
      by (intro less.hyps) (auto simp: min_def)
  next
    fix acc' w' assume "cur \<le> toBlock" "1000 < bs"
    then show "P (min (cur + bs - 1) toBlock) (bs div 2) acc' cur w'"
      by (intro less.hyps) auto
  qed
qed

text \<open>
  With a positive batch size the loop ends, every request made before it is still on
  record, and the batch sizes it uses stay in any set that holds the first size and is
  closed under the halving of sizes above 1000.
\<close>

lemma loop_batches:
  fixes bs :: int
  assumes "1 \<le> bs" and "bs \<in> S"
    and closed: "\<And>b. b \<in> S \<Longrightarrow> 1000 < b \<Longrightarrow> b div 2 \<in> S"
  shows "\<exists>evs w' cs bl.
           queryEventsInBatches_loop qf c f toBlock bs acc cur w = Some (evs, w')
           \<and> calls w' = calls w @ cs \<and> batches w' = batches w @ bl \<and> set bl \<subseteq> S"
  using assms(1,2)
proof (induction toBlock bs acc cur w rule: loop_induct)
  case (step toBlock bs acc cur w)
  show ?case
  proof (cases "cur \<le> toBlock")
    case False
    then show ?thesis by (simp add: loop_done)
  next
    case True
    let ?e = "min (cur + bs - 1) toBlock"
    let ?w1 = "w\<lparr>calls := calls w @ [QueryFilter c f cur ?e], batches := batches w @ [bs]\<rparr>"
    have unfold: "queryEventsInBatches_loop qf c f toBlock bs acc cur w =
      (case qf (calls w) cur ?e of
         Inr events \<Rightarrow>
           queryEventsInBatches_loop qf c f toBlock bs (acc @ filter isEventLog events)
             (?e + 1) ?w1
       | Inl msg \<Rightarrow>
           if 1000 < bs then
             Option.bind (queryEventsInBatches_loop qf c f ?e (bs div 2) [] cur ?w1)
               (\<lambda>(sm, w2). queryEventsInBatches_loop qf c f toBlock bs (acc @ sm) (?e + 1) w2)
           else queryEventsInBatches_loop qf c f toBlock bs acc (?e + 1) ?w1)"
      using True by (subst queryEventsInBatches_loop.simps) (simp add: Let_def)
    note next_pass = step.IH(1)[OF True step.prems]
    show ?thesis
    proof (cases "qf (calls w) cur ?e")
      case (Inr events)
      from next_pass[of "acc @ filter isEventLog events" ?w1] obtain evs w' cs bl where
        "queryEventsInBatches_loop qf c f toBlock bs (acc @ filter isEventLog events)
           (?e + 1) ?w1 = Some (evs, w')"
        "calls w' = calls ?w1 @ cs" "batches w' = batches ?w1 @ bl" "set bl \<subseteq> S"
        by blast
      with Inr step.prems show ?thesis
        by (simp add: unfold)
    next
      case (Inl msg)
      show ?thesis
      proof (cases "1000 < bs")
        case False
        from next_pass[of acc ?w1] obtain evs w' cs bl where
          "queryEventsInBatches_loop qf c f toBlock bs acc (?e + 1) ?w1 = Some (evs, w')"
          "calls w' = calls ?w1 @ cs" "batches w' = batches ?w1 @ bl" "set bl \<subseteq> S"
          by blast
        with Inl False step.prems show ?thesis
          by (simp add: unfold)
      next
        case big: True
        from step.IH(2)[OF True big closed[OF step.prems big], of "[]" ?w1]
        obtain sm w2 cs2 bl2 where
          inner: "queryEventsInBatches_loop qf c f ?e (bs div 2) [] cur ?w1 = Some (sm, w2)"
            "calls w2 = calls ?w1 @ cs2" "batches w2 = batches ?w1 @ bl2" "set bl2 \<subseteq> S"
          by blast
        from next_pass[of "acc @ sm" w2] obtain evs w3 cs3 bl3 where
          outer: "queryEventsInBatches_loop qf c f toBlock bs (acc @ sm) (?e + 1) w2
                    = Some (evs, w3)"
            "calls w3 = calls w2 @ cs3" "batches w3 = batches w2 @ bl3" "set bl3 \<subseteq> S"
          by blast
        from Inl big inner outer step.prems show ?thesis
          by (simp add: unfold)
      qed
    qed
  qed
qed





text \<open>Started with the default batch size, the fetcher always returns.\<close>

lemma batches_total:
  "\<exists>evs w'. queryEventsInBatches qf c f a b defaultBatchSize w = Some (evs, w')"
proof -
  have "\<exists>evs w' cs bl.
          queryEventsInBatches_loop qf c f b 10000 [] a w = Some (evs, w')
          \<and> calls w' = calls w @ cs \<and> batches w' = batches w @ bl \<and> set bl \<subseteq> UNIV"
    by (rule loop_batches) auto
  then show ?thesis by (auto simp: queryEventsInBatches_def defaultBatchSize_def)
qed

text \<open>With any positive batch size the fetcher returns.\<close>

lemma positive_batch_size_returns:
  "1 \<le> bs \<Longrightarrow> \<exists>evs w'. queryEventsInBatches qf c f a b bs w = Some (evs, w')"
proof -
  assume "1 \<le> bs"
  then have "\<exists>evs w' cs bl.
          queryEventsInBatches_loop qf c f b bs [] a w = Some (evs, w')
          \<and> calls w' = calls w @ cs \<and> batches w' = batches w @ bl \<and> set bl \<subseteq> UNIV"
    by (rule loop_batches) auto
  then show ?thesis by (auto simp: queryEventsInBatches_def)
qed

text \<open>
  With a batch size of 0 or less the loop never moves past its first block: on a range
  that is not empty the fetcher does not return.
\<close>

lemma loop_never_ends:
  assumes "queryEventsInBatches_loop qf c f toBlock bs acc cur w = Some r"
  shows "\<not> (bs \<le> 0 \<and> cur \<le> toBlock)"
proof (rule queryEventsInBatches_loop.raw_induct[OF _ assms])
  fix loop :: "(call list \<Rightarrow> int \<Rightarrow> int \<Rightarrow> string + 'a log list) \<Rightarrow> string \<Rightarrow> string \<Rightarrow>
     int \<Rightarrow> int \<Rightarrow> 'a log list \<Rightarrow> int \<Rightarrow> world \<Rightarrow> ('a log list \<times> world) option"
  fix qf c f and toBlock bs :: int and acc and cur :: int and w r
  assume IH: "\<And>qf c f toBlock bs acc cur w r.
     loop qf c f toBlock bs acc cur w = Some r \<Longrightarrow> \<not> (bs \<le> 0 \<and> cur \<le> toBlock)"
  assume body: "(if cur \<le> toBlock then
       (let endBlock = min (cur + bs - 1) toBlock;
            w1 = w\<lparr>calls := calls w @ [QueryFilter c f cur endBlock],
                   batches := batches w @ [bs]\<rparr>
        in case qf (calls w) cur endBlock of
             Inr events \<Rightarrow>
               loop qf c f toBlock bs (acc @ filter isEventLog events) (endBlock + 1) w1
           | Inl errorMsg \<Rightarrow>
               if bs > 1000 then
                 Option.bind (loop qf c f endBlock (bs div 2) [] cur w1)
                   (\<lambda>(smallerBatch, w2).
                      loop qf c f toBlock bs (acc @ smallerBatch) (endBlock + 1) w2)
               else loop qf c f toBlock bs acc (endBlock + 1) w1)
     else Some (acc, w)) = Some r"
  show "\<not> (bs \<le> 0 \<and> cur \<le> toBlock)"
  proof
    assume a: "bs \<le> 0 \<and> cur \<le> toBlock"
    let ?e = "min (cur + bs - 1) toBlock"
    from a have e: "?e + 1 \<le> toBlock" by (auto simp: min_def)
    from a body obtain acc' w1 where
      nxt: "loop qf c f toBlock bs acc' (?e + 1) w1 = Some r"
      by (auto simp: Let_def split: sum.splits)
    from IH[OF nxt] a e show False by blast
  qed
qed

lemma nonpositive_batch_size_diverges:
  "bs \<le> 0 \<Longrightarrow> a \<le> b \<Longrightarrow> queryEventsInBatches qf c f a b bs w = None"
  using loop_never_ends[of qf c f b bs "[]" a w]
  by (cases "queryEventsInBatches qf c f a b bs w") (auto simp: queryEventsInBatches_def)


text \<open>Every query of a single block fails: five attempts, then the block is given up.\<close>

lemma all_fail_single:
  "queryEventsInBatches (\<lambda>h x y. Inl msg) c f b b 10000 w =
     Some ([], w\<lparr>calls := calls w @ replicate 5 (QueryFilter c f b b),
                batches := batches w @ [10000, 5000, 2500, 1250, 625]\<rparr>)"
  unfolding queryEventsInBatches_def
  apply (subst queryEventsInBatches_loop.simps, simp add: loop_done)+
  apply (simp add: numeral_eq_Suc)
  done

text \<open>
  C10. When \<open>fromBlock > toBlock\<close> the batch event fetcher returns the empty event list and
  sends no query: the record of requests is unchanged. In particular a query from
  \<open>checkpoint + 1\<close> is harmless when the checkpoint is the current head.
\<close>

theorem empty_range_issues_no_query:
  "toBlock < startBlock \<Longrightarrow>
   queryEventsInBatches qf c f startBlock toBlock batchSize w = Some ([], w)"
  by (simp add: queryEventsInBatches_def loop_done)

theorem empty_range_issues_no_query_witness:
  "(51001::int) < 51001 + 1 \<and>
   queryEventsInBatches (queryConfigSet downNode ''0xR'') ''0xR'' ''ConfigSet'' (51001 + 1) 51001
     defaultBatchSize freshWorld = Some ([], freshWorld)"
  using empty_range_issues_no_query
    [of 51001 "51001 + 1" "queryConfigSet downNode ''0xR''" "''0xR''" "''ConfigSet''"
        defaultBatchSize freshWorld]
  by simp

text \<open>
  C4, as stated, fails: a batch size below 1000 is attempted. On a node that rejects every
  request, the query of block 0 is tried with the sizes 10000, 5000, 2500, 1250 and 625.
\<close>

theorem batch_size_below_floor:
  "queryEventsInBatches (queryConfigSet downNode ''0xR'') ''0xR'' ''ConfigSet'' 0 0
     defaultBatchSize freshWorld =
     Some ([], \<lparr>calls = [QueryFilter ''0xR'' ''ConfigSet'' 0 0, QueryFilter ''0xR'' ''ConfigSet'' 0 0,
                         QueryFilter ''0xR'' ''ConfigSet'' 0 0, QueryFilter ''0xR'' ''ConfigSet'' 0 0,
                         QueryFilter ''0xR'' ''ConfigSet'' 0 0],
                batches = [10000, 5000, 2500, 1250, 625]\<rparr>)"
  by (simp add: queryEventsInBatches_def queryEventsInBatches_loop.simps downNode_def
      freshWorld_def defaultBatchSize_def)

text \<open>
  C4, amended. For every input range the batch event fetcher, started with batch size 10000,
  returns: no failure reaches the caller, and every batch size it attempts is one of 10000,
  5000, 2500, 1250, 625. When the query of a batch fails and the batch size is above 1000,
  the same sub-range is fetched again with half the batch size, and its events are kept;
  when the batch size is 1000 or less the sub-range is dropped, and the fetcher goes on
  after it either way. When every query of a single block fails, the five sizes are
  attempted in this order and the result has no event.
\<close>

theorem batch_retry_sizes:
  "(\<exists>evs w' bl.
      queryEventsInBatches qf c f a b defaultBatchSize w = Some (evs, w')
      \<and> batches w' = batches w @ bl \<and> set bl \<subseteq> {10000, 5000, 2500, 1250, 625})
   \<and> (a \<le> b \<and> qf (calls w) a (min (a + bs - 1) b) = Inl msg \<longrightarrow>
        queryEventsInBatches qf c f a b bs w =
          (let endBlock = min (a + bs - 1) b;
               w1 = w\<lparr>calls := calls w @ [QueryFilter c f a endBlock],
                      batches := batches w @ [bs]\<rparr>
           in if 1000 < bs then
                Option.bind (queryEventsInBatches qf c f a endBlock (bs div 2) w1)
                  (\<lambda>(smallerBatch, w2).
                     queryEventsInBatches_loop qf c f b bs smallerBatch (endBlock + 1) w2)
              else queryEventsInBatches qf c f (endBlock + 1) b bs w1))
   \<and> queryEventsInBatches (\<lambda>h x y. Inl msg) c f a a defaultBatchSize w =
       Some ([], w\<lparr>calls := calls w @ replicate 5 (QueryFilter c f a a),
                  batches := batches w @ [10000, 5000, 2500, 1250, 625]\<rparr>)"
proof (intro conjI impI)
  have "\<exists>evs w' cs bl.
          queryEventsInBatches_loop qf c f b 10000 [] a w = Some (evs, w')
          \<and> calls w' = calls w @ cs \<and> batches w' = batches w @ bl
          \<and> set bl \<subseteq> {10000, 5000, 2500, 1250, 625}"
    by (rule loop_batches) auto
  then show "\<exists>evs w' bl.
      queryEventsInBatches qf c f a b defaultBatchSize w = Some (evs, w')
      \<and> batches w' = batches w @ bl \<and> set bl \<subseteq> {10000, 5000, 2500, 1250, 625}"
    by (auto simp: queryEventsInBatches_def defaultBatchSize_def)
next
  assume "a \<le> b \<and> qf (calls w) a (min (a + bs - 1) b) = Inl msg"
  then show "queryEventsInBatches qf c f a b bs w =
          (let endBlock = min (a + bs - 1) b;
               w1 = w\<lparr>calls := calls w @ [QueryFilter c f a endBlock],
                      batches := batches w @ [bs]\<rparr>
           in if 1000 < bs then
                Option.bind (queryEventsInBatches qf c f a endBlock (bs div 2) w1)
                  (\<lambda>(smallerBatch, w2).
                     queryEventsInBatches_loop qf c f b bs smallerBatch (endBlock + 1) w2)
              else queryEventsInBatches qf c f (endBlock + 1) b bs w1)"
    unfolding queryEventsInBatches_def
    by (subst queryEventsInBatches_loop.simps) (simp add: Let_def)
next
  show "queryEventsInBatches (\<lambda>h x y. Inl msg) c f a a defaultBatchSize w =
       Some ([], w\<lparr>calls := calls w @ replicate 5 (QueryFilter c f a a),
                  batches := batches w @ [10000, 5000, 2500, 1250, 625]\<rparr>)"
    using all_fail_single by (simp add: defaultBatchSize_def)
qed

lemma narrow_halved:
  "queryEventsInBatches (queryConfigSet narrowNode ''0xR'') ''0xR'' ''ConfigSet'' 0 9999 5000
      \<lparr>calls = [QueryFilter ''0xR'' ''ConfigSet'' 0 9999], batches = [10000]\<rparr>
   = Some ([EventLog 2000 (ConfigSetArgs ''0xA'' ''0xB'' ''0xO2'')],
        \<lparr>calls = [QueryFilter ''0xR'' ''ConfigSet'' 0 9999, QueryFilter ''0xR'' ''ConfigSet'' 0 4999,
                  QueryFilter ''0xR'' ''ConfigSet'' 5000 9999],
         batches = [10000, 5000, 5000]\<rparr>)"
  by (simp add: queryEventsInBatches_def queryEventsInBatches_loop.simps narrowNode_def)

theorem batch_retry_sizes_witness:
  "queryEventsInBatches (queryConfigSet narrowNode ''0xR'') ''0xR'' ''ConfigSet'' 0 9999
      defaultBatchSize freshWorld
   = Some ([EventLog 2000 (ConfigSetArgs ''0xA'' ''0xB'' ''0xO2'')],
        \<lparr>calls = [QueryFilter ''0xR'' ''ConfigSet'' 0 9999, QueryFilter ''0xR'' ''ConfigSet'' 0 4999,
                  QueryFilter ''0xR'' ''ConfigSet'' 5000 9999],
         batches = [10000, 5000, 5000]\<rparr>)"
proof -
  have f: "(0::int) \<le> 9999 \<and>
     queryConfigSet narrowNode ''0xR'' (calls freshWorld) 0 (min (0 + 10000 - 1) 9999)
       = Inl ''query returned more than 10000 results''"
    by (simp add: narrowNode_def)
  from batch_retry_sizes[where qf = "queryConfigSet narrowNode ''0xR''" and a = 0 and b = 9999
      and bs = 10000 and w = freshWorld and c = "''0xR''" and f = "''ConfigSet''"
      and msg = "''query returned more than 10000 results''"] f
  have "queryEventsInBatches (queryConfigSet narrowNode ''0xR'') ''0xR'' ''ConfigSet'' 0 9999
          10000 freshWorld =
        Option.bind
          (queryEventsInBatches (queryConfigSet narrowNode ''0xR'') ''0xR'' ''ConfigSet'' 0 9999
             (10000 div 2)
             \<lparr>calls = [QueryFilter ''0xR'' ''ConfigSet'' 0 9999], batches = [10000]\<rparr>)
          (\<lambda>(smallerBatch, w2).
             queryEventsInBatches_loop (queryConfigSet narrowNode ''0xR'') ''0xR'' ''ConfigSet''
               9999 10000 smallerBatch (9999 + 1) w2)"
    by (auto simp: freshWorld_def Let_def)
  then show ?thesis
    by (simp add: narrow_halved loop_done defaultBatchSize_def)
qed


section \<open>Vendor attribution\<close>

text \<open>An entry that \<^verbatim>\<open>find\<close> accepts has an address, and it is not the zero address.\<close>

lemma oracleMatches_address:
  assumes "oracleMatches a el"
  shows "\<exists>fa. fullAddressOf el = Some fa \<and> fa \<noteq> zeroAddress"
  using assms by (auto simp: oracleMatches_def split: option.splits if_splits)

lemma found_oracle_address:
  assumes "find (oracleMatches a) os = Some el"
  shows "\<exists>fa. fullAddressOf el = Some fa \<and> fa \<noteq> zeroAddress"
  using assms by (auto simp: find_Some_iff intro: oracleMatches_address)

text \<open>An address in the known-vault set resolves to the vault classification.\<close>

lemma vault_resolves:
  assumes "v \<in> set (vaultDeployments d)" and "toLowerCase (address v) = toLowerCase a"
  shows "getVendorForOracle a d =
           \<lparr>vendor = ''Euler Vault'', underlying = [], vendorType = VaultType\<rparr>"
proof -
  from assms
  have "find (\<lambda>vault. toLowerCase (address vault) = toLowerCase a) (vaultDeployments d) \<noteq> None"
    by (auto simp: find_None_iff)
  then show ?thesis by (auto simp: getVendorForOracle_def)
qed

text \<open>An address in neither the vault set nor the registry is unresolved.\<close>

lemma absent_unresolved:
  assumes "\<forall>v \<in> set (vaultDeployments d). toLowerCase (address v) \<noteq> toLowerCase a"
    and "\<forall>el \<in> set (eulerOracles d). \<forall>fa.
           fullAddressOf el = Some fa \<longrightarrow> toLowerCase fa \<noteq> toLowerCase a"
  shows "getVendorForOracle a d =
           \<lparr>vendor = ''oracle not known'', underlying = [], vendorType = ErrorType\<rparr>"
proof -
  from assms(1)
  have v: "find (\<lambda>vault. toLowerCase (address vault) = toLowerCase a) (vaultDeployments d) = None"
    by (auto simp: find_None_iff)
  from assms(2) have "find (oracleMatches a) (eulerOracles d) = None"
    by (auto simp: find_None_iff oracleMatches_def split: option.splits)
  with v show ?thesis by (simp add: getVendorForOracle_def)
qed

text \<open>No input at all is classified as escrow: that branch is never reached.\<close>

lemma never_escrow: "vendorType (getVendorForOracle a d) \<noteq> NoOracleEscrow"
  by (auto simp: getVendorForOracle_def Let_def split: option.splits
      dest!: found_oracle_address)

text \<open>
  C7. An address in the known-vault set resolves to Vault whatever the registry holds, and
  an address absent from the registry resolves to Unresolved (\<open>vault_resolves\<close>,
  \<open>absent_unresolved\<close>). But an adapter whose registry entry carries the all-zero address
  does not resolve to EscrowNoOracle: the search of the registry passes over every entry
  with the zero address, so the zero address with such an entry comes out as
  \<^verbatim>\<open>oracle not known\<close>.
\<close>

theorem zero_address_entry_not_escrow:
  "getVendorForOracle zeroAddress escrowRegistry =
     \<lparr>vendor = ''oracle not known'', underlying = [], vendorType = ErrorType\<rparr>"
  by (simp add: getVendorForOracle_def escrowRegistry_def oracleMatches_def fullAddressOf_def
      addressAtStart_def zeroAddress_def isHexDigit_def)






section \<open>Processing of routers\<close>

lemma analyzeRouter_processed:
  assumes "queryEventsInBatches (queryConfigSet node (address d)) (address d) ''ConfigSet'' q h
             defaultBatchSize w = Some (evs, w')"
  shows "analyzeRouter node od h d q isR p w =
      Some (Processed,
        p\<lparr>routers := (routers p)(address d \<mapsto>
             mergeRouterInfo od d (if isR then routers p (address d) else None) evs),
          processedRouters := (processedRouters p)(address d \<mapsto> h)\<rparr>, w')"
  using assms
  by (simp add: analyzeRouter_def filters_def ROUTER_ABI_def Let_def)

text \<open>
  The event query of a router raises nothing: the batch fetcher absorbs every rejected
  request, so the loop body never ends in a caught error.
\<close>

lemma processRouter_never_raises:
  "processRouter node od cfg h d p w \<noteq> Some (Raised e, p', w')"
proof -
  have "analyzeRouter node od h d q isR p w \<noteq> Some (Raised e, p', w')" for q isR
  proof -
    obtain evs w2 where q: "queryEventsInBatches (queryConfigSet node (address d)) (address d)
       ''ConfigSet'' q h defaultBatchSize w = Some (evs, w2)"
      using batches_total by blast
    show ?thesis by (simp add: analyzeRouter_processed[OF q])
  qed
  then show ?thesis
    by (auto simp: processRouter_def split: option.splits)
qed





section \<open>The merge of a recheck\<close>












section \<open>Checkpoints\<close>

text \<open>
  One pass over a router leaves every stored checkpoint as it is, or sets it to the current
  head, and then only when the stored one is at least the recheck interval behind.
\<close>

lemma processRouter_checkpoint:
  "\<exists>out p' w'. processRouter node od cfg h d p w = Some (out, p', w') \<and>
     (\<forall>a. processedRouters p' a = processedRouters p a \<or>
          (processedRouters p' a = Some h \<and>
           (\<forall>b. processedRouters p a = Some b \<longrightarrow> RECHECK_INTERVAL_BLOCKS cfg \<le> h - b)))"
proof (cases "processedRouters p (address d)")
  case None
  obtain evs w' where q: "queryEventsInBatches (queryConfigSet node (address d)) (address d)
       ''ConfigSet'' (deploymentBlock d) h defaultBatchSize w = Some (evs, w')"
    using batches_total by blast
  from None analyzeRouter_processed[OF q, of od False p] show ?thesis
    by (simp add: processRouter_def)
next
  case (Some lastBlock)
  show ?thesis
  proof (cases "h - lastBlock < RECHECK_INTERVAL_BLOCKS cfg")
    case True
    with Some show ?thesis by (simp add: processRouter_def)
  next
    case False
    obtain evs w' where q: "queryEventsInBatches (queryConfigSet node (address d)) (address d)
         ''ConfigSet'' (lastBlock + 1) h defaultBatchSize w = Some (evs, w')"
      using batches_total by blast
    from Some False analyzeRouter_processed[OF q, of od True p] show ?thesis
      by (simp add: processRouter_def)
  qed
qed

lemma processRouters_checkpoint:
  "\<exists>p' w'. processRouters node od cfg h ds p w = Some (p', w') \<and>
     (\<forall>a. processedRouters p' a = processedRouters p a \<or>
          (processedRouters p' a = Some h \<and>
           (\<forall>b. processedRouters p a = Some b \<longrightarrow> RECHECK_INTERVAL_BLOCKS cfg \<le> h - b)))"
proof (induction ds arbitrary: p w)
  case Nil
  show ?case by simp
next
  case (Cons d ds)
  from processRouter_checkpoint[of node od cfg h d p w] obtain out p1 w1 where
    s: "processRouter node od cfg h d p w = Some (out, p1, w1)" and
    s1: "\<And>a. processedRouters p1 a = processedRouters p a \<or>
          (processedRouters p1 a = Some h \<and>
           (\<forall>b. processedRouters p a = Some b \<longrightarrow> RECHECK_INTERVAL_BLOCKS cfg \<le> h - b))"
    by blast
  from Cons.IH[of p1 w1] obtain p' w' where
    r: "processRouters node od cfg h ds p1 w1 = Some (p', w')" and
    r1: "\<And>a. processedRouters p' a = processedRouters p1 a \<or>
          (processedRouters p' a = Some h \<and>
           (\<forall>b. processedRouters p1 a = Some b \<longrightarrow> RECHECK_INTERVAL_BLOCKS cfg \<le> h - b))"
    by blast
  have "processedRouters p' a = processedRouters p a \<or>
          (processedRouters p' a = Some h \<and>
           (\<forall>b. processedRouters p a = Some b \<longrightarrow> RECHECK_INTERVAL_BLOCKS cfg \<le> h - b))" for a
    using s1[of a] r1[of a] by auto
  with s r show ?case by simp
qed

text \<open>One pass over a vault leaves a stored checkpoint as it is or sets it to the head.\<close>

lemma recordVault_checkpoint:
  "processedVaults (recordVault od h d ra aa p) = (processedVaults p)(address d \<mapsto> h)"
  by (simp add: recordVault_def Let_def split: prod.splits)

lemma analyzeVault_checkpoint:
  assumes "analyzeVault node od h d rq p w = (out, p', w')"
  shows "processedVaults p' a = processedVaults p a \<or> processedVaults p' a = Some h"
  using assms
  by (auto simp: analyzeVault_def Let_def recordVault_checkpoint
      split: option.splits sum.splits if_splits prod.splits)

lemma processVault_checkpoint:
  assumes "processVault node od cfg h d p w = (out, p', w')"
  shows "processedVaults p' a = processedVaults p a \<or> processedVaults p' a = Some h"
  using assms
  by (auto simp: processVault_def split: option.splits if_splits dest: analyzeVault_checkpoint)

lemma processVaults_checkpoint:
  assumes "processVaults node od cfg h ds p w = (p', w')"
  shows "processedVaults p' a = processedVaults p a \<or> processedVaults p' a = Some h"
  using assms
proof (induction ds arbitrary: p w)
  case Nil
  then show ?case by simp
next
  case (Cons d ds)
  obtain out p1 w1 where s: "processVault node od cfg h d p w = (out, p1, w1)"
    by (cases "processVault node od cfg h d p w")
  with Cons.prems have r: "processVaults node od cfg h ds p1 w1 = (p', w')" by simp
  from processVault_checkpoint[OF s, of a] Cons.IH[OF r] show ?case by auto
qed

text \<open>
  C2. In a run whose head \<open>h\<close> is not below any stored checkpoint (the head has not
  decreased since they were written), no entity's \<^verbatim>\<open>lastProcessedBlock\<close> decreases. For a
  router the run leaves the stored value unchanged or replaces it with \<open>h\<close>, and then
  \<open>h\<close> is at least \<^verbatim>\<open>RECHECK_INTERVAL_BLOCKS\<close> above the old value; for a vault it leaves the
  stored value unchanged or replaces it with \<open>h\<close>.
\<close>

theorem checkpoint_never_decreases:
  assumes "\<forall>a b. processedRouters p a = Some b \<longrightarrow> b \<le> h"
    and "\<forall>a b. processedVaults p a = Some b \<longrightarrow> b \<le> h"
  shows "(\<exists>p' w'. processRouterDeployments node od cfg rs h p w = Some (p', w') \<and>
           (\<forall>a b. processedRouters p a = Some b \<longrightarrow>
              (\<exists>b'. processedRouters p' a = Some b' \<and> b \<le> b' \<and>
                    (b' = b \<or> (b' = h \<and> RECHECK_INTERVAL_BLOCKS cfg \<le> h - b)))))
       \<and> (\<forall>a b. processedVaults p a = Some b \<longrightarrow>
              (\<exists>b'. processedVaults (fst (processVaultDeployments node od cfg vs h p w)) a
                       = Some b' \<and> b \<le> b' \<and> (b' = b \<or> b' = h)))"
proof
  from processRouters_checkpoint[of node od cfg h rs p w] obtain p1 w' where
    r: "processRouters node od cfg h rs p w = Some (p1, w')" and
    r1: "\<And>a. processedRouters p1 a = processedRouters p a \<or>
          (processedRouters p1 a = Some h \<and>
           (\<forall>b. processedRouters p a = Some b \<longrightarrow> RECHECK_INTERVAL_BLOCKS cfg \<le> h - b))"
    by blast
  let ?p' = "p1\<lparr>lastRouterFactoryBlock := Some h\<rparr>"
  have run: "processRouterDeployments node od cfg rs h p w = Some (?p', w')"
    using r by (simp add: processRouterDeployments_def)
  have "\<exists>b'. processedRouters ?p' a = Some b' \<and> b \<le> b' \<and>
              (b' = b \<or> (b' = h \<and> RECHECK_INTERVAL_BLOCKS cfg \<le> h - b))"
    if "processedRouters p a = Some b" for a b
    using r1[of a] that assms(1) by auto
  with run show "\<exists>p' w'. processRouterDeployments node od cfg rs h p w = Some (p', w') \<and>
           (\<forall>a b. processedRouters p a = Some b \<longrightarrow>
              (\<exists>b'. processedRouters p' a = Some b' \<and> b \<le> b' \<and>
                    (b' = b \<or> (b' = h \<and> RECHECK_INTERVAL_BLOCKS cfg \<le> h - b))))"
    by blast
next
  obtain p1 w' where r: "processVaults node od cfg h vs p w = (p1, w')"
    by (cases "processVaults node od cfg h vs p w")
  then have f: "processedVaults (fst (processVaultDeployments node od cfg vs h p w))
                 = processedVaults p1"
    by (simp add: processVaultDeployments_def)
  show "\<forall>a b. processedVaults p a = Some b \<longrightarrow>
              (\<exists>b'. processedVaults (fst (processVaultDeployments node od cfg vs h p w)) a
                       = Some b' \<and> b \<le> b' \<and> (b' = b \<or> b' = h))"
    using processVaults_checkpoint[OF r] assms(2) unfolding f by (metis order_refl)
qed

theorem checkpoint_never_decreases_witness:
  "(\<exists>p' w' b'. processRouterDeployments exampleNode noOracleData defaultConfig [exampleRouter]
          51001 cachedProgress freshWorld = Some (p', w')
        \<and> processedRouters p' ''0xR'' = Some b' \<and> 1000 \<le> b'
        \<and> (b' = 1000 \<or> (b' = 51001 \<and> RECHECK_INTERVAL_BLOCKS defaultConfig \<le> 51001 - 1000)))
   \<and> (\<exists>b'. processedVaults (fst (processVaultDeployments exampleNode noOracleData defaultConfig
          [exampleVault] 51001 cachedProgress freshWorld)) ''0xV'' = Some b'
        \<and> 1000 \<le> b' \<and> (b' = 1000 \<or> b' = 51001))"
proof -
  have h1: "\<forall>a b. processedRouters cachedProgress a = Some b \<longrightarrow> b \<le> 51001"
    by (simp add: cachedProgress_def)
  have h2: "\<forall>a b. processedVaults cachedProgress a = Some b \<longrightarrow> b \<le> 51001"
    by (simp add: cachedProgress_def)
  have s1: "processedRouters cachedProgress ''0xR'' = Some 1000"
    by (simp add: cachedProgress_def)
  have s2: "processedVaults cachedProgress ''0xV'' = Some 1000"
    by (simp add: cachedProgress_def)
  from checkpoint_never_decreases[OF h1 h2, where node = exampleNode and od = noOracleData
      and cfg = defaultConfig and rs = "[exampleRouter]" and vs = "[exampleVault]"
      and w = freshWorld] s1 s2
  show ?thesis by fastforce
qed



section \<open>Range resolution and the cold start\<close>

text \<open>
  C5, as stated, fails: with an empty deployment cache, no checkpoint and no start block,
  \<^verbatim>\<open>fetchRouters\<close> ends the run with the configuration error, but only after it has asked
  the node for the current block number.
\<close>

theorem cold_start_requests_height:
  "fetchRouters exampleNode noOracleData defaultConfig [] freshProgress freshWorld =
     Some (Inl (ConfigurationError ''ROUTER_FACTORY_START_BLOCK is not set in .env file''), [],
           \<lparr>calls = [GetBlockNumber], batches = []\<rparr>)"
  by (simp add: fetchRouters_def evaluateRouterFactoryQuery_def requireStartBlock_def
      truthyNum_def exampleNode_def defaultConfig_def freshProgress_def freshWorld_def)

text \<open>
  C5, amended. On a cold start with an empty deployment cache, no checkpoint and no
  configured start block, \<^verbatim>\<open>fetchRouters\<close> sends exactly one request, for the current
  block number, and no event query. When that request is answered the run fails with the
  configuration error that names \<^verbatim>\<open>ROUTER_FACTORY_START_BLOCK\<close>; when it is rejected the
  run fails with that rejection instead. The cache is left empty.
\<close>

theorem cold_start_fails_after_height_request:
  assumes "lastRouterFactoryBlock p = None" and "ROUTER_FACTORY_START_BLOCK cfg = None"
  shows "fetchRouters node od cfg [] p w =
     Some (case getBlockNumber node (calls w) of
             Inl msg \<Rightarrow> Inl (RpcError msg)
           | Inr currentBlock \<Rightarrow>
               Inl (ConfigurationError ''ROUTER_FACTORY_START_BLOCK is not set in .env file''),
           [], w\<lparr>calls := calls w @ [GetBlockNumber]\<rparr>)"
  using assms
  by (simp add: fetchRouters_def evaluateRouterFactoryQuery_def requireStartBlock_def
      truthyNum_def Let_def split: sum.splits)

theorem cold_start_fails_after_height_request_witness:
  "lastRouterFactoryBlock freshProgress = None
   \<and> ROUTER_FACTORY_START_BLOCK defaultConfig = None
   \<and> fetchRouters downNode noOracleData defaultConfig [] freshProgress freshWorld =
       Some (Inl (RpcError ''timeout''), [], \<lparr>calls = [GetBlockNumber], batches = []\<rparr>)"
proof -
  have a: "lastRouterFactoryBlock freshProgress = None" by (simp add: freshProgress_def)
  have b: "ROUTER_FACTORY_START_BLOCK defaultConfig = None" by (simp add: defaultConfig_def)
  from cold_start_fails_after_height_request[OF a b, where node = downNode
      and od = noOracleData and w = freshWorld] a b
  show ?thesis
    by (simp add: downNode_def freshWorld_def)
qed





section \<open>Errors while processing one vault\<close>

lemma analyzeVault_raised:
  assumes "analyzeVault node od h d rq p w = (Raised e, p', w')"
  shows "p' = p"
  using assms
  by (auto simp: analyzeVault_def Let_def split: option.splits sum.splits if_splits prod.splits)

lemma processVault_raised:
  assumes "processVault node od cfg h d p w = (Raised e, p', w')"
  shows "p' = p"
  using assms
  by (auto simp: processVault_def split: option.splits if_splits dest: analyzeVault_raised)

text \<open>
  C3, as stated, fails: the error is not recorded on the entity's record. The node rejects
  the \<^verbatim>\<open>oracle()\<close> request of the cached vault \<^verbatim>\<open>0xV\<close>; after the run its record is the cached
  one, with no error on it.
\<close>

theorem vault_error_not_recorded:
  "processVault downNode noOracleData defaultConfig 51001 exampleVault cachedProgress freshWorld
     = (Raised (RpcError ''timeout''), cachedProgress,
        \<lparr>calls = [CallOracle ''0xV'', CallAsset ''0xV''], batches = []\<rparr>)
   \<and> map_option vi_error
        (vaults (fst (processVaultDeployments downNode noOracleData defaultConfig [exampleVault]
                        51001 cachedProgress freshWorld)) ''0xV'') = Some None"
  by (simp add: processVaultDeployments_def processVault_def analyzeVault_def Let_def
      downNode_def defaultConfig_def exampleVault_def cachedProgress_def freshWorld_def)

text \<open>
  C3, amended. When processing of one vault raises a query error (a rejected
  \<^verbatim>\<open>oracle()\<close> or \<^verbatim>\<open>asset()\<close> request, or an empty address in the answer), the progress
  state is left completely unchanged, and the loop goes on with the next vault from that
  unchanged state: the run is not aborted. The error is only printed. (The processing of a
  router raises no such error, \<open>processRouter_never_raises\<close>.)
\<close>

theorem vault_error_isolated:
  assumes "processVault node od cfg h d p w = (Raised e, p', w')"
  shows "p' = p \<and>
         processVaults node od cfg h (d # rest) p w = processVaults node od cfg h rest p w'"
  using assms processVault_raised[OF assms] by simp

theorem vault_error_isolated_witness:
  "processVault downNode noOracleData defaultConfig 51001 exampleVault cachedProgress freshWorld
     = (Raised (RpcError ''timeout''), cachedProgress,
        \<lparr>calls = [CallOracle ''0xV'', CallAsset ''0xV''], batches = []\<rparr>)
   \<and> processVaults downNode noOracleData defaultConfig 51001 [exampleVault, exampleVault]
        cachedProgress freshWorld
     = processVaults downNode noOracleData defaultConfig 51001 [exampleVault] cachedProgress
        \<lparr>calls = [CallOracle ''0xV'', CallAsset ''0xV''], batches = []\<rparr>"
proof -
  have r: "processVault downNode noOracleData defaultConfig 51001 exampleVault cachedProgress
             freshWorld
     = (Raised (RpcError ''timeout''), cachedProgress,
        \<lparr>calls = [CallOracle ''0xV'', CallAsset ''0xV''], batches = []\<rparr>)"
    by (simp add: processVault_def analyzeVault_def Let_def downNode_def defaultConfig_def
        exampleVault_def cachedProgress_def freshWorld_def)
  from vault_error_isolated[OF r, of "[exampleVault]"] r show ?thesis by simp
qed

end
